theory Spec2Isabelle
  imports Main "HOL-Library.Sublist"
begin

section \<open>Python strings\<close>

text \<open>
  A Python \<open>str\<close> is a sequence of Unicode code points, so it is modelled as a list of
  natural numbers (one per code point), not as a list of 8-bit characters. \<open>lit\<close> embeds
  an ASCII literal of the source.
\<close>

type_synonym pystr = "nat list"

definition lit :: "string \<Rightarrow> pystr" where
  "lit s = map of_char s"

definition is_ascii :: "nat \<Rightarrow> bool" where
  "is_ascii c = (c < 128)"

text \<open>Printable ASCII: the code points from space (32) to tilde (126).\<close>

definition is_printable_ascii :: "nat \<Rightarrow> bool" where
  "is_printable_ascii c = (32 \<le> c \<and> c \<le> 126)"

section \<open>\<open>utils.py\<close>: \<open>normalize_text\<close>\<close>

text \<open>
  \<open>text.replace(char, replacement)\<close> where \<open>char\<close> is a one-character string: every
  occurrence of the code point is replaced, left to right.
\<close>

definition str_replace :: "nat \<Rightarrow> pystr \<Rightarrow> pystr \<Rightarrow> pystr" where
  "str_replace k r text = concat (map (\<lambda>c. if c = k then r else [c]) text)"

text \<open>The \<open>replacements\<close> dictionary, in insertion order (the order the loop visits it).\<close>

definition replacements :: "(nat \<times> pystr) list" where
  "replacements =
    [(0x2212, lit ''-''),
     (0x2013, lit ''-''),
     (0x2014, lit ''-''),
     (0x2018, [0x27]),
     (0x2019, [0x27]),
     (0x201C, [0x22]),
     (0x201D, [0x22]),
     (0x2026, lit ''...''),
     (0x00A0, lit '' ''),
     (0x2217, lit ''*''),
     (0x2022, lit ''-''),
     (0x00B7, lit ''-''),
     (0x2192, lit ''->''),
     (0x2190, lit ''<-''),
     (0x2264, lit ''<=''),
     (0x2265, lit ''>=''),
     (0x00D7, lit ''x''),
     (0x00F7, lit ''/''),
     (0x221A, lit ''sqrt''),
     (0x03B1, lit ''alpha''),
     (0x03B2, lit ''beta''),
     (0x03B3, lit ''gamma''),
     (0x03BB, lit ''lambda''),
     (0x03C0, lit ''pi''),
     (0x03C3, lit ''sigma''),
     (0x03BC, lit ''mu'')]"

text \<open>
  \<open>for char, replacement in replacements.items(): text = text.replace(char, replacement)\<close>
\<close>

definition apply_replacements :: "(nat \<times> pystr) list \<Rightarrow> pystr \<Rightarrow> pystr" where
  "apply_replacements tbl text = foldl (\<lambda>t (k, r). str_replace k r t) text tbl"

text \<open>
  \<open>text.encode('ascii', errors='replace').decode('ascii')\<close>: a code point below 128 is
  kept, any other becomes one question mark (63).
\<close>

definition encode_ascii_replace :: "pystr \<Rightarrow> pystr" where
  "encode_ascii_replace text = map (\<lambda>c. if c < 128 then c else 63) text"

text \<open>
  \<open>unicodedata.normalize("NFKC", _)\<close> belongs to the Python standard library, not to this
  repository; it is the parameter \<open>nfkc\<close>. The only fact about it that the proofs use is
  that it leaves a string of ASCII code points as it is.
\<close>

definition normalize_text :: "(pystr \<Rightarrow> pystr) \<Rightarrow> pystr \<Rightarrow> pystr" where
  "normalize_text nfkc text =
     encode_ascii_replace (apply_replacements replacements (nfkc text))"

text \<open>
  A fragment of NFKC on which the definitions can be run: the compatibility mappings of
  the ligature fi (U+FB01), the micro sign (U+00B5), the horizontal ellipsis (U+2026), the
  no-break space (U+00A0) and the fullwidth letter A (U+FF21); every other code point is
  kept.
\<close>

definition nfkc_char :: "nat \<Rightarrow> pystr" where
  "nfkc_char c =
     (if c = 0xFB01 then lit ''fi''
      else if c = 0x00B5 then [0x03BC]
      else if c = 0x2026 then lit ''...''
      else if c = 0x00A0 then lit '' ''
      else if c = 0xFF21 then lit ''A''
      else [c])"

definition nfkc_fragment :: "pystr \<Rightarrow> pystr" where
  "nfkc_fragment text = concat (map nfkc_char text)"

section \<open>\<open>utils.py\<close>: \<open>extract_text_from_pdfs\<close>\<close>

text \<open>
  What the PDF library does with an uploaded file is an input of the model. Opening the
  file (\<open>file.read()\<close>, \<open>file.seek(0)\<close>, \<open>fitz.open\<close>) either raises, with the text
  \<open>str(e)\<close> of the exception, or gives the pages in order; \<open>page.get_text("text")\<close>
  returns the page's text or raises; \<open>doc.close()\<close> returns or raises.
\<close>

datatype page_read = PageText pystr | PageFails pystr

datatype pdf_read = OpenFails pystr | Opened "page_read list" "pystr option"

record uploaded_file =
  name :: pystr
  pdf :: pdf_read

text \<open>
  \<open>str.isspace\<close> of one code point and \<open>str.strip()\<close>: Python strips the Unicode
  whitespace characters on both sides.
\<close>

definition is_space :: "nat \<Rightarrow> bool" where
  "is_space c =
     ((0x09 \<le> c \<and> c \<le> 0x0D) \<or> (0x1C \<le> c \<and> c \<le> 0x20) \<or> c = 0x85 \<or> c = 0xA0 \<or>
      c = 0x1680 \<or> (0x2000 \<le> c \<and> c \<le> 0x200A) \<or> c = 0x2028 \<or> c = 0x2029 \<or>
      c = 0x202F \<or> c = 0x205F \<or> c = 0x3000)"

definition strip :: "pystr \<Rightarrow> pystr" where
  "strip s = rev (dropWhile is_space (rev (dropWhile is_space s)))"

text \<open>\<open>str(n)\<close> of a non-negative integer: its decimal digits.\<close>

function str_of_nat :: "nat \<Rightarrow> pystr" where
  "str_of_nat n = (if n < 10 then [48 + n] else str_of_nat (n div 10) @ [48 + n mod 10])"
  by pat_completeness auto
termination
  by (relation "measure id") auto

declare str_of_nat.simps [simp del]

text \<open>\<open>sep.join(parts)\<close>\<close>

fun join :: "pystr \<Rightarrow> pystr list \<Rightarrow> pystr" where
  "join sep [] = []"
| "join sep [x] = x"
| "join sep (x # y # ys) = x @ sep @ join sep (y # ys)"

definition nl :: pystr where
  "nl = [0x0A]"

text \<open>The three f-strings of the function.\<close>

definition file_banner :: "pystr \<Rightarrow> pystr" where
  "file_banner file_name =
     nl @ replicate 60 0x3D @ nl @ lit ''FILE: '' @ file_name @ nl @ replicate 60 0x3D @ nl"

definition page_banner :: "nat \<Rightarrow> pystr" where
  "page_banner page_num = nl @ lit ''--- Page '' @ str_of_nat page_num @ lit '' ---'' @ nl"

definition error_marker :: "pystr \<Rightarrow> pystr \<Rightarrow> pystr" where
  "error_marker file_name e = nl @ lit ''[Error reading '' @ file_name @ lit '': '' @ e @ lit '']'' @ nl"

text \<open>
  The loop over \<open>enumerate(doc, start=1)\<close>, with the list \<open>file_text\<close> threaded through.
  \<open>Inl e\<close> is an exception leaving the loop; the pages appended so far are lost with the
  local list.
\<close>

fun read_pages :: "(pystr \<Rightarrow> pystr) \<Rightarrow> nat \<Rightarrow> page_read list \<Rightarrow> pystr list \<Rightarrow> pystr + pystr list" where
  "read_pages nfkc page_num [] file_text = Inr file_text"
| "read_pages nfkc page_num (PageFails e # pages) file_text = Inl e"
| "read_pages nfkc page_num (PageText text # pages) file_text =
     read_pages nfkc (Suc page_num) pages
       (if strip text \<noteq> []
        then file_text @ [page_banner page_num, normalize_text nfkc text]
        else file_text)"

text \<open>The body of the \<open>try\<close>: \<open>Inr\<close> is the string appended to \<open>all_text\<close>.\<close>

definition try_file :: "(pystr \<Rightarrow> pystr) \<Rightarrow> uploaded_file \<Rightarrow> pystr + pystr" where
  "try_file nfkc file =
     (case pdf file of
        OpenFails e \<Rightarrow> Inl e
      | Opened pages closing \<Rightarrow>
          (case read_pages nfkc 1 pages [file_banner (name file)] of
             Inl e \<Rightarrow> Inl e
           | Inr file_text \<Rightarrow>
               (case closing of
                  Some e \<Rightarrow> Inl e
                | None \<Rightarrow> Inr (concat file_text))))"

text \<open>One turn of the \<open>for file in uploaded_files\<close> loop, with its \<open>except Exception\<close>.\<close>

definition file_fragment :: "(pystr \<Rightarrow> pystr) \<Rightarrow> uploaded_file \<Rightarrow> pystr" where
  "file_fragment nfkc file =
     (case try_file nfkc file of
        Inr file_text \<Rightarrow> file_text
      | Inl e \<Rightarrow> error_marker (name file) e)"

fun extract_loop :: "(pystr \<Rightarrow> pystr) \<Rightarrow> uploaded_file list \<Rightarrow> pystr list \<Rightarrow> pystr list" where
  "extract_loop nfkc [] all_text = all_text"
| "extract_loop nfkc (file # files) all_text =
     extract_loop nfkc files (all_text @ [file_fragment nfkc file])"

definition extract_text_from_pdfs :: "(pystr \<Rightarrow> pystr) \<Rightarrow> uploaded_file list \<Rightarrow> pystr" where
  "extract_text_from_pdfs nfkc uploaded_files = join nl (extract_loop nfkc uploaded_files [])"

section \<open>\<open>utils.py\<close>: \<open>STRICT_QUERY_PREFIX\<close> and \<open>get_rlm\<close>\<close>

definition STRICT_QUERY_PREFIX :: pystr where
  "STRICT_QUERY_PREFIX =
     lit ''When answering, prefer information from the document in the context variable.'' @ nl @
     lit ''Cite specific passages when possible.'' @ nl @
     nl @
     lit ''User question: ''"

text \<open>
  Truth value of an optional string (\<open>if api_key\<close>, \<open>not api_key\<close>, \<open>if prompt := ...\<close>):
  \<open>None\<close> and the empty string are false.
\<close>

fun truthy :: "pystr option \<Rightarrow> bool" where
  "truthy None = False"
| "truthy (Some s) = (s \<noteq> [])"

text \<open>
  The dictionary \<open>backend_kwargs\<close>: keys are strings, a value is a string or \<open>None\<close>
  (\<open>Some None\<close> is a key bound to Python's \<open>None\<close>).
\<close>

type_synonym kwargs = "pystr \<rightharpoonup> pystr option"

definition backend_kwargs_of :: "pystr \<Rightarrow> pystr \<Rightarrow> pystr option \<Rightarrow> pystr option \<Rightarrow> kwargs" where
  "backend_kwargs_of backend model_name api_key base_url =
     (let backend_kwargs = [lit ''model_name'' \<mapsto> Some model_name] in
      if backend = lit ''vllm'' then
        backend_kwargs
          (lit ''base_url'' \<mapsto> base_url,
           lit ''api_key'' \<mapsto> (if truthy api_key then api_key else Some (lit ''ollama'')))
      else if backend = lit ''openai'' then backend_kwargs(lit ''api_key'' \<mapsto> api_key)
      else if backend = lit ''gemini'' then backend_kwargs(lit ''api_key'' \<mapsto> api_key)
      else backend_kwargs)"

text \<open>
  The world outside the repository: the standard library's NFKC, \<open>os.makedirs\<close> on the
  log directory (\<open>Some e\<close> when it raises), the constructor \<open>RLM(backend=...,
  backend_kwargs=..., ...)\<close> (its other arguments are constants of the source) and the
  method \<open>rlm.completion(prompt=..., root_prompt=...)\<close>, whose value is
  \<open>response.response\<close>. \<open>Inl e\<close> is an exception with text \<open>str(e) = e\<close>.
\<close>

record 'rlm engine =
  unicode_nfkc :: "pystr \<Rightarrow> pystr"
  makedirs :: "pystr option"
  RLM :: "pystr \<Rightarrow> kwargs \<Rightarrow> pystr + 'rlm"
  completion :: "'rlm \<Rightarrow> pystr option \<Rightarrow> pystr \<Rightarrow> pystr + pystr option"

definition get_rlm :: "'rlm engine \<Rightarrow> pystr \<Rightarrow> pystr \<Rightarrow> pystr option \<Rightarrow> pystr option \<Rightarrow> pystr + 'rlm" where
  "get_rlm eng backend model_name api_key base_url =
     (let backend_kwargs = backend_kwargs_of backend model_name api_key base_url in
      case makedirs eng of
        Some e \<Rightarrow> Inl e
      | None \<Rightarrow> RLM eng backend backend_kwargs)"

section \<open>\<open>app.py\<close>: session state and sidebar\<close>

datatype msg_role = User | Assistant

record message =
  role :: msg_role
  content :: pystr

record 'rlm session_state =
  messages :: "message list"
  rlm_instance :: "'rlm option"
  pdf_context :: "pystr option"
  context_loaded :: bool

definition initial_session :: "'rlm session_state" where
  "initial_session =
     \<lparr>messages = [], rlm_instance = None, pdf_context = None, context_loaded = False\<rparr>"

datatype backend_choice = OpenAI | Gemini | Ollama

fun display_name :: "backend_choice \<Rightarrow> pystr" where
  "display_name OpenAI = lit ''OpenAI''"
| "display_name Gemini = lit ''Gemini''"
| "display_name Ollama = lit ''Ollama''"

fun backend_map :: "backend_choice \<Rightarrow> pystr" where
  "backend_map OpenAI = lit ''openai''"
| "backend_map Gemini = lit ''gemini''"
| "backend_map Ollama = lit ''vllm''"

text \<open>
  \<open>st.text_input(label, value=v)\<close> returns \<open>v\<close> until the user edits the field, then
  what the user typed (possibly the empty string).
\<close>

definition text_input :: "pystr \<Rightarrow> pystr option \<Rightarrow> pystr" where
  "text_input val typed = (case typed of None \<Rightarrow> val | Some s \<Rightarrow> s)"

text \<open>
  The widgets of the sidebar and the two keys read from the environment at start-up
  (\<open>os.getenv(..., "")\<close>: the empty string when unset).
\<close>

record widgets =
  backend_display :: backend_choice
  model_selected :: pystr
  key_typed :: "pystr option"
  override_typed :: "pystr option"
  url_typed :: "pystr option"
  model_typed :: "pystr option"

record environ =
  DEFAULT_OPENAI_KEY :: pystr
  DEFAULT_GEMINI_KEY :: pystr

record backend_params =
  backend :: pystr
  model_name :: pystr
  api_key :: "pystr option"
  base_url :: "pystr option"

definition hosted_key :: "pystr \<Rightarrow> widgets \<Rightarrow> pystr" where
  "hosted_key default_key w =
     (if default_key \<noteq> [] then
        (let override_key = text_input [] (override_typed w) in
         if override_key \<noteq> [] then override_key else default_key)
      else text_input [] (key_typed w))"

definition sidebar :: "environ \<Rightarrow> widgets \<Rightarrow> backend_params" where
  "sidebar env w =
     (case backend_display w of
        OpenAI \<Rightarrow>
          \<lparr>backend = backend_map OpenAI, model_name = model_selected w,
           api_key = Some (hosted_key (DEFAULT_OPENAI_KEY env) w), base_url = None\<rparr>
      | Gemini \<Rightarrow>
          \<lparr>backend = backend_map Gemini, model_name = model_selected w,
           api_key = Some (hosted_key (DEFAULT_GEMINI_KEY env) w), base_url = None\<rparr>
      | Ollama \<Rightarrow>
          \<lparr>backend = backend_map Ollama,
           model_name = text_input (lit ''llama3'') (model_typed w),
           api_key = Some (text_input (lit ''ollama'') (key_typed w)),
           base_url = Some (text_input (lit ''http://localhost:11434/v1'') (url_typed w))\<rparr>)"

section \<open>\<open>app.py\<close>: the two handlers\<close>

text \<open>
  What a handler shows: \<open>st.error(msg)\<close>, the success line of a load (with the two
  numbers it prints), the answer written by \<open>st.markdown\<close>, or nothing.
\<close>

datatype feedback = Error pystr | Loaded nat nat | Answered pystr | Idle

text \<open>The body of \<open>if st.button("Load PDFs & Initialize")\<close>.\<close>

definition load_button ::
  "'rlm engine \<Rightarrow> backend_choice \<Rightarrow> backend_params \<Rightarrow> uploaded_file list \<Rightarrow>
   'rlm session_state \<Rightarrow> feedback \<times> 'rlm session_state" where
  "load_button eng display p uploaded_files st =
     (if uploaded_files = [] then
        (Error (lit ''Please upload at least one PDF file.''), st)
      else if \<not> truthy (api_key p) \<and> display \<noteq> Ollama then
        (Error (lit ''Please enter your '' @ display_name display @ lit '' API Key.''), st)
      else
        (let pdf_text = extract_text_from_pdfs (unicode_nfkc eng) uploaded_files;
             st1 = st\<lparr>pdf_context := Some pdf_text\<rparr>
         in case get_rlm eng (backend p) (model_name p) (api_key p) (base_url p) of
              Inr rlm \<Rightarrow>
                (Loaded (length uploaded_files) (length pdf_text),
                 st1\<lparr>rlm_instance := Some rlm, context_loaded := True, messages := []\<rparr>)
            | Inl e \<Rightarrow> (Error (lit ''Failed to initialize RLM: '' @ e), st1)))"

definition load_click ::
  "'rlm engine \<Rightarrow> environ \<Rightarrow> widgets \<Rightarrow> uploaded_file list \<Rightarrow>
   'rlm session_state \<Rightarrow> feedback \<times> 'rlm session_state" where
  "load_click eng env w uploaded_files st =
     load_button eng (backend_display w) (sidebar env w) uploaded_files st"

definition fallback_answer :: pystr where
  "fallback_answer =
     lit ''I could not generate a response. The document may not contain relevant information for this question, or the model encountered an issue.''"

text \<open>
  \<open>rlm.completion\<close> on a session whose \<open>rlm_instance\<close> is still \<open>None\<close> raises an
  \<open>AttributeError\<close> with this text.
\<close>

definition none_has_no_completion :: pystr where
  "none_has_no_completion =
     [0x27] @ lit ''NoneType'' @ [0x27] @ lit '' object has no attribute '' @
     [0x27] @ lit ''completion'' @ [0x27]"

text \<open>The two arguments of \<open>rlm.completion(prompt=context, root_prompt=full_prompt)\<close>.\<close>

definition completion_args :: "'rlm session_state \<Rightarrow> pystr \<Rightarrow> pystr option \<times> pystr" where
  "completion_args st prompt =
     (let context = pdf_context st;
          full_prompt = STRICT_QUERY_PREFIX @ prompt
      in (context, full_prompt))"

text \<open>The body of the \<open>try\<close> up to \<open>answer = response.response\<close>.\<close>

definition call_rlm :: "'rlm engine \<Rightarrow> 'rlm session_state \<Rightarrow> pystr \<Rightarrow> pystr + pystr option" where
  "call_rlm eng st prompt =
     (case rlm_instance st of
        None \<Rightarrow> Inl none_has_no_completion
      | Some rlm \<Rightarrow>
          (case completion_args st prompt of
             (context, full_prompt) \<Rightarrow> completion eng rlm context full_prompt))"

text \<open>
  The body of \<open>if prompt := st.chat_input(...)\<close>; \<open>chat_input\<close> gives \<open>None\<close> when nothing
  was submitted.
\<close>

definition chat_input ::
  "'rlm engine \<Rightarrow> pystr option \<Rightarrow> 'rlm session_state \<Rightarrow> feedback \<times> 'rlm session_state" where
  "chat_input eng submitted st =
     (case submitted of
        None \<Rightarrow> (Idle, st)
      | Some prompt \<Rightarrow>
          if prompt = [] then (Idle, st)
          else if \<not> context_loaded st then
            (Error (lit ''Please load PDFs first using the sidebar.''), st)
          else
            (let st1 = st\<lparr>messages := messages st @ [\<lparr>role = User, content = prompt\<rparr>]\<rparr>
             in case call_rlm eng st1 prompt of
                  Inr response \<Rightarrow>
                    (let answer = (case response of None \<Rightarrow> fallback_answer | Some a \<Rightarrow> a)
                     in (Answered answer,
                         st1\<lparr>messages := messages st1 @ [\<lparr>role = Assistant, content = answer\<rparr>]\<rparr>))
                | Inl e \<Rightarrow>
                    (let error_msg = lit ''Error: '' @ e
                     in (Error error_msg,
                         st1\<lparr>messages := messages st1 @ [\<lparr>role = Assistant, content = error_msg\<rparr>]\<rparr>))))"

text \<open>
  A run of the application: each interaction is a click on the load button or a
  submitted chat line, with the reaction of the outside world at that moment.
\<close>

datatype 'rlm interaction =
    Load "'rlm engine" environ widgets "uploaded_file list"
  | Ask "'rlm engine" "pystr option"

fun interact :: "'rlm interaction \<Rightarrow> 'rlm session_state \<Rightarrow> feedback \<times> 'rlm session_state" where
  "interact (Load eng env w uploaded_files) st = load_click eng env w uploaded_files st"
| "interact (Ask eng submitted) st = chat_input eng submitted st"

fun run :: "'rlm interaction list \<Rightarrow> 'rlm session_state \<Rightarrow> feedback list \<times> 'rlm session_state" where
  "run [] st = ([], st)"
| "run (i # is) st =
     (case interact i st of
        (fb, st1) \<Rightarrow> (case run is st1 of (fbs, st2) \<Rightarrow> (fb # fbs, st2)))"

fun is_Loaded :: "feedback \<Rightarrow> bool" where
  "is_Loaded (Loaded n m) = True"
| "is_Loaded _ = False"

text \<open>An engine for running the definitions: a fixed reaction to every call.\<close>

definition fixed_engine :: "pystr + unit \<Rightarrow> pystr + pystr option \<Rightarrow> unit engine" where
  "fixed_engine init reply =
     \<lparr>unicode_nfkc = nfkc_fragment, makedirs = None,
      RLM = (\<lambda>b kw. init), completion = (\<lambda>r c q. reply)\<rparr>"

section \<open>Properties of \<open>normalize_text\<close>\<close>

lemmas normalize_eval =
  normalize_text_def nfkc_fragment_def nfkc_char_def apply_replacements_def replacements_def
  str_replace_def encode_ascii_replace_def lit_def

lemma encode_ascii_replace_ascii:
  "list_all is_ascii (encode_ascii_replace str)"
  by (induction str) (simp_all add: encode_ascii_replace_def is_ascii_def)

lemma encode_ascii_replace_fixes_ascii:
  "list_all is_ascii str \<Longrightarrow> encode_ascii_replace str = str"
  by (induction str) (simp_all add: encode_ascii_replace_def is_ascii_def)

lemma str_replace_absent:
  "k \<notin> set str \<Longrightarrow> str_replace k r str = str"
  by (induction str) (simp_all add: str_replace_def)

lemma apply_replacements_absent:
  "\<forall>(k, r) \<in> set tbl. k \<notin> set str \<Longrightarrow> apply_replacements tbl str = str"
proof (induction tbl)
  case Nil
  show ?case by (simp add: apply_replacements_def)
next
  case (Cons p tbl)
  obtain k r where p: "p = (k, r)" by (cases p)
  from Cons.prems p have "k \<notin> set str" by simp
  hence "str_replace k r str = str" by (rule str_replace_absent)
  moreover from Cons have "apply_replacements tbl str = str" by simp
  ultimately show ?case using p by (simp add: apply_replacements_def)
qed

lemma replacements_keys_not_ascii:
  "\<forall>(k, r) \<in> set replacements. \<not> is_ascii k"
  by (simp add: replacements_def is_ascii_def)

lemma apply_replacements_fixes_ascii:
  assumes "list_all is_ascii str"
  shows "apply_replacements replacements str = str"
proof (rule apply_replacements_absent)
  from assms have "\<forall>c \<in> set str. is_ascii c" by (simp add: list_all_iff)
  with replacements_keys_not_ascii
  show "\<forall>(k, r) \<in> set replacements. k \<notin> set str" by fastforce
qed

lemma normalize_text_ascii:
  "list_all is_ascii (normalize_text nfkc str)"
  by (simp add: normalize_text_def encode_ascii_replace_ascii)

lemma nfkc_fragment_fixes_ascii:
  "list_all is_ascii str \<Longrightarrow> nfkc_fragment str = str"
  by (induction str) (simp_all add: nfkc_fragment_def nfkc_char_def is_ascii_def)

text \<open>
  C5. \<open>normalize_text\<close> is idempotent: normalising a normalised string changes nothing.
  The standard library's NFKC enters through the one fact that it keeps ASCII strings.
\<close>

theorem normalize_text_idempotent:
  assumes "\<And>t. list_all is_ascii t \<Longrightarrow> nfkc t = t"
  shows "normalize_text nfkc (normalize_text nfkc s) = normalize_text nfkc s"
proof -
  let ?n = "normalize_text nfkc s"
  have a: "list_all is_ascii ?n" by (rule normalize_text_ascii)
  hence "nfkc ?n = ?n" by (rule assms)
  moreover from a have "apply_replacements replacements ?n = ?n"
    by (rule apply_replacements_fixes_ascii)
  moreover from a have "encode_ascii_replace ?n = ?n"
    by (rule encode_ascii_replace_fixes_ascii)
  ultimately show ?thesis by (simp add: normalize_text_def)
qed

theorem normalize_text_idempotent_witness:
  "normalize_text nfkc_fragment
     (normalize_text nfkc_fragment [0x03B1, 0x20, 0x2192, 0x20, 0xFB01, 0xE9, 0x0A])
   = lit ''alpha -> fi?'' @ nl"
proof -
  have "normalize_text nfkc_fragment
          (normalize_text nfkc_fragment [0x03B1, 0x20, 0x2192, 0x20, 0xFB01, 0xE9, 0x0A])
      = normalize_text nfkc_fragment [0x03B1, 0x20, 0x2192, 0x20, 0xFB01, 0xE9, 0x0A]"
    by (rule normalize_text_idempotent [OF nfkc_fragment_fixes_ascii])
  also have "\<dots> = lit ''alpha -> fi?'' @ nl"
    by (simp add: normalize_eval nl_def)
  finally show ?thesis .
qed

text \<open>
  C6, amended. \<open>normalize_text\<close> is total and every code point of its result is below 128.
  What the last pass replaces is the code points from 128 on, each by one question mark;
  a code point below 128 is kept, control characters included.
\<close>

theorem normalize_text_ascii_replace:
  "list_all is_ascii (normalize_text nfkc s) \<and>
   normalize_text nfkc s =
     map (\<lambda>c. if is_ascii c then c else 0x3F) (apply_replacements replacements (nfkc s))"
  by (simp add: normalize_text_def encode_ascii_replace_ascii)
     (simp add: encode_ascii_replace_def is_ascii_def)

text \<open>
  C6 as stated fails on a form feed (U+000C), which is outside printable ASCII and comes
  out of the last pass, and of the whole function, unchanged.
\<close>

theorem normalize_text_keeps_control_chars:
  "normalize_text nfkc_fragment [0x0C] = [0x0C] \<and>
   encode_ascii_replace (apply_replacements replacements [0x0C]) = [0x0C] \<and>
   \<not> is_printable_ascii 0x0C"
  by (simp add: normalize_eval is_printable_ascii_def)

section \<open>Properties of \<open>extract_text_from_pdfs\<close>\<close>

lemma extract_loop_map: "extract_loop nfkc files acc = acc @ map (file_fragment nfkc) files"
  by (induction files arbitrary: acc) simp_all

lemma extract_text_from_pdfs_join:
  "extract_text_from_pdfs nfkc files = join nl (map (file_fragment nfkc) files)"
  by (simp add: extract_text_from_pdfs_def extract_loop_map)

lemma sublist_chain: "sublist xs ys \<Longrightarrow> sublist ys zs \<Longrightarrow> sublist xs zs"
proof -
  assume "sublist xs ys" "sublist ys zs"
  then obtain p s q r where "ys = p @ xs @ s" "zs = q @ ys @ r" by (auto simp: sublist_def)
  hence "zs = (q @ p) @ xs @ (s @ r)" by simp
  thus ?thesis unfolding sublist_def by blast
qed

lemma sublist_concat: "x \<in> set xs \<Longrightarrow> sublist x (concat xs)"
proof -
  assume "x \<in> set xs"
  then obtain p s where "xs = p @ x # s" by (auto simp: in_set_conv_decomp)
  hence "concat xs = concat p @ x @ concat s" by simp
  thus ?thesis unfolding sublist_def by blast
qed

lemma read_pages_keeps:
  "read_pages nfkc n pages acc = Inr ft \<Longrightarrow> \<exists>more. ft = acc @ more"
  by (induction nfkc n pages acc rule: read_pages.induct) (auto split: if_splits)

lemma read_pages_has_text:
  "read_pages nfkc n pages acc = Inr ft \<Longrightarrow> PageText t \<in> set pages \<Longrightarrow> strip t \<noteq> [] \<Longrightarrow>
   normalize_text nfkc t \<in> set ft"
proof (induction nfkc n pages acc rule: read_pages.induct)
  case (3 nfkc n tx pages acc)
  show ?case
  proof (cases "t = tx")
    case True
    with 3 obtain more where "ft = (acc @ [page_banner n, normalize_text nfkc tx]) @ more"
      using read_pages_keeps by fastforce
    with True show ?thesis by simp
  next
    case False
    with 3 show ?thesis by (auto split: if_splits)
  qed
qed simp_all

lemma read_pages_fails:
  "read_pages nfkc n (map PageText ts @ PageFails e # rest) acc = Inl e"
  by (induction ts arbitrary: n acc) simp_all

lemma read_pages_all_text:
  "\<exists>ft. read_pages nfkc n (map PageText ts) acc = Inr ft"
  by (induction ts arbitrary: n acc) simp_all

lemma try_file_has_text:
  assumes "try_file nfkc file = Inr t" "pdf file = Opened pages closing"
    "PageText x \<in> set pages" "strip x \<noteq> []"
  shows "sublist (normalize_text nfkc x) t"
proof -
  from assms(1,2) obtain ft where ft: "read_pages nfkc 1 pages [file_banner (name file)] = Inr ft"
    and t: "t = concat ft"
    by (auto simp: try_file_def split: sum.splits option.splits)
  from ft assms(3,4) have "normalize_text nfkc x \<in> set ft" by (rule read_pages_has_text)
  thus ?thesis unfolding t by (rule sublist_concat)
qed

lemma try_file_has_banner:
  assumes "try_file nfkc file = Inr t"
  shows "prefix (file_banner (name file)) t"
proof -
  from assms obtain pages ft where ft: "read_pages nfkc 1 pages [file_banner (name file)] = Inr ft"
    and t: "t = concat ft"
    by (auto simp: try_file_def split: sum.splits option.splits pdf_read.splits)
  from ft obtain more where "ft = [file_banner (name file)] @ more"
    using read_pages_keeps by blast
  thus ?thesis unfolding t by simp
qed

text \<open>
  C3. In a batch \<open>[valid, corrupt, valid2]\<close> where opening or reading \<open>corrupt\<close> raises
  \<open>e\<close> and the other two files are read to the end, the corpus is the text of \<open>valid\<close>,
  the error marker of \<open>corrupt\<close> (which holds its name) and the text of \<open>valid2\<close>, joined
  by newlines. The two texts start with their file banners, and the normalised text of
  every non-blank page of \<open>valid\<close> and \<open>valid2\<close> stands in the corpus.
\<close>

theorem extract_isolates_failed_file:
  assumes "try_file nfkc valid = Inr t1"
    and "try_file nfkc corrupt = Inl e"
    and "try_file nfkc valid2 = Inr t2"
  shows "extract_text_from_pdfs nfkc [valid, corrupt, valid2] =
           t1 @ nl @ error_marker (name corrupt) e @ nl @ t2
       \<and> prefix (file_banner (name valid)) t1
       \<and> prefix (file_banner (name valid2)) t2
       \<and> sublist (name corrupt) (error_marker (name corrupt) e)
       \<and> (\<forall>f pages closing x. f \<in> {valid, valid2} \<longrightarrow> pdf f = Opened pages closing \<longrightarrow>
             PageText x \<in> set pages \<longrightarrow> strip x \<noteq> [] \<longrightarrow>
             sublist (normalize_text nfkc x) (extract_text_from_pdfs nfkc [valid, corrupt, valid2]))"
proof -
  let ?corpus = "extract_text_from_pdfs nfkc [valid, corrupt, valid2]"
  have eq: "?corpus = t1 @ nl @ error_marker (name corrupt) e @ nl @ t2"
    using assms by (simp add: extract_text_from_pdfs_join file_fragment_def)
  have s1: "sublist t1 ?corpus" unfolding eq by simp
  have "?corpus = (t1 @ nl @ error_marker (name corrupt) e @ nl) @ t2" unfolding eq by simp
  hence s2: "sublist t2 ?corpus" by (metis sublist_append_leftI)
  have nm: "sublist (name corrupt) (error_marker (name corrupt) e)"
  proof -
    have "error_marker (name corrupt) e =
        (nl @ lit ''[Error reading '') @ name corrupt @ (lit '': '' @ e @ lit '']'' @ nl)"
      by (simp add: error_marker_def)
    thus ?thesis unfolding sublist_def by blast
  qed
  have pages: "sublist (normalize_text nfkc x) ?corpus"
    if "f \<in> {valid, valid2}" "pdf f = Opened pages closing" "PageText x \<in> set pages" "strip x \<noteq> []"
    for f pages closing x
  proof -
    from that(1) consider "f = valid" | "f = valid2" by blast
    thus ?thesis
    proof cases
      case 1
      with assms(1) that have "sublist (normalize_text nfkc x) t1"
        by (auto intro: try_file_has_text)
      thus ?thesis using s1 by (rule sublist_chain)
    next
      case 2
      with assms(3) that have "sublist (normalize_text nfkc x) t2"
        by (auto intro: try_file_has_text)
      thus ?thesis using s2 by (rule sublist_chain)
    qed
  qed
  from eq nm pages try_file_has_banner[OF assms(1)] try_file_has_banner[OF assms(3)]
  show ?thesis by blast
qed

theorem extract_isolates_failed_file_witness:
  "extract_text_from_pdfs nfkc_fragment
     [\<lparr>name = lit ''a.pdf'', pdf = Opened [PageText (lit ''Revenue: $5M''), PageText (lit '' '')] None\<rparr>,
      \<lparr>name = lit ''bad.pdf'', pdf = OpenFails (lit ''cannot open broken document'')\<rparr>,
      \<lparr>name = lit ''c.pdf'', pdf = Opened [PageText [0x3B1, 0x2264, 0x31]] None\<rparr>]
   = (file_banner (lit ''a.pdf'') @ page_banner 1 @ lit ''Revenue: $5M'') @ nl @
     error_marker (lit ''bad.pdf'') (lit ''cannot open broken document'') @ nl @
     (file_banner (lit ''c.pdf'') @ page_banner 1 @ lit ''alpha<=1'')"
proof -
  let ?v = "\<lparr>name = lit ''a.pdf'', pdf = Opened [PageText (lit ''Revenue: $5M''), PageText (lit '' '')] None\<rparr>"
  let ?c = "\<lparr>name = lit ''bad.pdf'', pdf = OpenFails (lit ''cannot open broken document'')\<rparr>"
  let ?w = "\<lparr>name = lit ''c.pdf'', pdf = Opened [PageText [0x3B1, 0x2264, 0x31]] None\<rparr>"
  have h1: "try_file nfkc_fragment ?v =
      Inr (file_banner (lit ''a.pdf'') @ page_banner 1 @ lit ''Revenue: $5M'')"
    by (simp add: try_file_def normalize_eval strip_def is_space_def)
  have h2: "try_file nfkc_fragment ?c = Inl (lit ''cannot open broken document'')"
    by (simp add: try_file_def)
  have h3: "try_file nfkc_fragment ?w =
      Inr (file_banner (lit ''c.pdf'') @ page_banner 1 @ lit ''alpha<=1'')"
    by (simp add: try_file_def normalize_eval strip_def is_space_def)
  from extract_isolates_failed_file [OF h1 h2 h3] show ?thesis by simp
qed

text \<open>
  C10. When a page of a file fails after earlier pages were read (or closing the document
  fails after all of them), the file's contribution to the corpus is its error marker
  and nothing else: the banner and the page texts collected so far are dropped, whatever
  they were. The contributions of the files before and after it are their own.
\<close>

theorem failed_file_leaves_only_marker:
  assumes "pdf file = Opened (map PageText seen @ PageFails e # rest) closing
         \<or> pdf file = Opened (map PageText seen) (Some e)"
  shows "file_fragment nfkc file = error_marker (name file) e
       \<and> extract_text_from_pdfs nfkc (before @ file # after) =
           join nl (map (file_fragment nfkc) before @
                    error_marker (name file) e # map (file_fragment nfkc) after)"
proof -
  have "try_file nfkc file = Inl e"
    using assms
  proof
    assume "pdf file = Opened (map PageText seen @ PageFails e # rest) closing"
    thus ?thesis by (simp add: try_file_def read_pages_fails)
  next
    assume "pdf file = Opened (map PageText seen) (Some e)"
    moreover obtain ft where
      "read_pages nfkc 1 (map PageText seen) [file_banner (name file)] = Inr ft"
      using read_pages_all_text by blast
    ultimately show ?thesis by (simp add: try_file_def)
  qed
  hence "file_fragment nfkc file = error_marker (name file) e"
    by (simp add: file_fragment_def)
  thus ?thesis by (simp add: extract_text_from_pdfs_join)
qed

theorem failed_file_leaves_only_marker_witness:
  "file_fragment nfkc_fragment
     \<lparr>name = lit ''b.pdf'',
      pdf = Opened [PageText (lit ''page one''), PageText (lit ''page two''),
                    PageFails (lit ''bad xref''), PageText (lit ''page four'')] None\<rparr>
   = error_marker (lit ''b.pdf'') (lit ''bad xref'')"
  using failed_file_leaves_only_marker
    [of "\<lparr>name = lit ''b.pdf'',
          pdf = Opened [PageText (lit ''page one''), PageText (lit ''page two''),
                        PageFails (lit ''bad xref''), PageText (lit ''page four'')] None\<rparr>"
        "[lit ''page one'', lit ''page two'']" "lit ''bad xref''"
        "[PageText (lit ''page four'')]" None nfkc_fragment "[]" "[]"]
  by simp

section \<open>Properties of the session\<close>

lemmas extract_eval =
  extract_text_from_pdfs_def file_fragment_def try_file_def strip_def is_space_def

lemma call_rlm_messages [simp]:
  "call_rlm eng (st\<lparr>messages := ms\<rparr>) prompt = call_rlm eng st prompt"
  by (simp add: call_rlm_def completion_args_def split: option.splits)

lemma fallback_answer_nonempty: "fallback_answer \<noteq> []"
  by (simp add: fallback_answer_def lit_def)

lemma chat_input_not_loaded:
  "\<not> context_loaded st \<Longrightarrow> snd (chat_input eng submitted st) = st"
  by (simp add: chat_input_def split: option.splits)

lemma chat_input_never_Loaded: "\<not> is_Loaded (fst (chat_input eng submitted st))"
  by (simp add: chat_input_def Let_def split: option.splits sum.splits)

lemma load_button_not_Loaded:
  assumes "\<not> is_Loaded (fst (load_button eng d p files st))"
  shows "messages (snd (load_button eng d p files st)) = messages st
       \<and> rlm_instance (snd (load_button eng d p files st)) = rlm_instance st
       \<and> context_loaded (snd (load_button eng d p files st)) = context_loaded st"
  using assms by (auto simp: load_button_def Let_def split: if_splits sum.splits)

lemma load_button_Loaded:
  assumes "is_Loaded (fst (load_button eng d p files st))"
  shows "messages (snd (load_button eng d p files st)) = []
       \<and> context_loaded (snd (load_button eng d p files st))"
  using assms by (auto simp: load_button_def Let_def split: if_splits sum.splits)

lemma interact_not_Loaded:
  assumes "\<not> is_Loaded (fst (interact i st))" "\<not> context_loaded st"
  shows "messages (snd (interact i st)) = messages st \<and> \<not> context_loaded (snd (interact i st))"
proof (cases i)
  case (Load eng env w files)
  with assms load_button_not_Loaded [of eng "backend_display w" "sidebar env w" files st]
  show ?thesis by (simp add: load_click_def)
next
  case (Ask eng submitted)
  with assms chat_input_not_loaded [of st eng submitted] show ?thesis by simp
qed

lemma run_not_Loaded:
  "list_all (\<lambda>fb. \<not> is_Loaded fb) (fst (run js st)) \<Longrightarrow> \<not> context_loaded st \<Longrightarrow>
   messages (snd (run js st)) = messages st \<and> \<not> context_loaded (snd (run js st))"
proof (induction js arbitrary: st)
  case Nil
  then show ?case by simp
next
  case (Cons i js)
  obtain fb st1 where i: "interact i st = (fb, st1)" by (cases "interact i st")
  obtain fbs st2 where r: "run js st1 = (fbs, st2)" by (cases "run js st1")
  from Cons.prems(1) i r have nf: "\<not> is_Loaded fb" and rest: "list_all (\<lambda>fb. \<not> is_Loaded fb) fbs"
    by simp_all
  from nf i Cons.prems(2) interact_not_Loaded [of i st]
  have s1: "messages st1 = messages st" "\<not> context_loaded st1" by simp_all
  from rest r have "list_all (\<lambda>fb. \<not> is_Loaded fb) (fst (run js st1))" by simp
  from Cons.IH [OF this s1(2)] r s1(1) i show ?case by simp
qed

lemma run_two:
  "fst (run [i1, i2] st) = [fst (interact i1 st), fst (interact i2 (snd (interact i1 st)))]"
  by (simp split: prod.splits)

text \<open>
  C1, at a failing input. A load whose backend initialisation fails leaves the history,
  the engine handle and the readiness flag as they were, but the corpus has already been
  stored: a ready session ends with the new corpus beside the old engine and the old
  history, and an empty session ends with a corpus and no engine.
\<close>

theorem load_failure_replaces_corpus:
  "load_button (fixed_engine (Inl (lit ''connection refused'')) (Inr None)) OpenAI
     \<lparr>backend = lit ''openai'', model_name = lit ''gpt-x'',
      api_key = Some (lit ''sk-...''), base_url = None\<rparr>
     [\<lparr>name = lit ''new.pdf'', pdf = Opened [PageText (lit ''new text'')] None\<rparr>]
     \<lparr>messages = [\<lparr>role = User, content = lit ''Q''\<rparr>, \<lparr>role = Assistant, content = lit ''A''\<rparr>],
      rlm_instance = Some (), pdf_context = Some (lit ''old corpus''), context_loaded = True\<rparr>
   = (Error (lit ''Failed to initialize RLM: connection refused''),
      \<lparr>messages = [\<lparr>role = User, content = lit ''Q''\<rparr>, \<lparr>role = Assistant, content = lit ''A''\<rparr>],
       rlm_instance = Some (),
       pdf_context = Some (file_banner (lit ''new.pdf'') @ page_banner 1 @ lit ''new text''),
       context_loaded = True\<rparr>)
   \<and> file_banner (lit ''new.pdf'') @ page_banner 1 @ lit ''new text'' \<noteq> lit ''old corpus''
   \<and> load_button (fixed_engine (Inl (lit ''connection refused'')) (Inr None)) OpenAI
     \<lparr>backend = lit ''openai'', model_name = lit ''gpt-x'',
      api_key = Some (lit ''sk-...''), base_url = None\<rparr>
     [\<lparr>name = lit ''new.pdf'', pdf = Opened [PageText (lit ''new text'')] None\<rparr>]
     initial_session
   = (Error (lit ''Failed to initialize RLM: connection refused''),
      \<lparr>messages = [], rlm_instance = None,
       pdf_context = Some (file_banner (lit ''new.pdf'') @ page_banner 1 @ lit ''new text''),
       context_loaded = False\<rparr>)"
  by (simp add: load_button_def fixed_engine_def get_rlm_def Let_def initial_session_def
        extract_eval normalize_eval file_banner_def nl_def)

text \<open>
  C2, amended. A non-empty question submitted to a ready session appends the user message
  and then exactly one assistant message, and the session stays ready. The assistant's
  content is the engine's answer when it returns one (the empty string included), the
  fixed non-empty fallback when the answer is \<open>None\<close>, and \<open>Error: \<close> followed by the
  failure text when the call raises. The call is \<open>completion\<close> on the stored handle with
  the stored corpus and the prefixed question.
\<close>

theorem chat_input_appends_turn:
  assumes "context_loaded st" and "prompt \<noteq> []"
  shows "snd (chat_input eng (Some prompt) st) =
           st\<lparr>messages := messages st @
               [\<lparr>role = User, content = prompt\<rparr>,
                \<lparr>role = Assistant,
                 content = (case call_rlm eng st prompt of
                              Inr (Some answer) \<Rightarrow> answer
                            | Inr None \<Rightarrow> fallback_answer
                            | Inl e \<Rightarrow> lit ''Error: '' @ e)\<rparr>]\<rparr>
       \<and> context_loaded (snd (chat_input eng (Some prompt) st))
       \<and> fallback_answer \<noteq> []
       \<and> (\<forall>rlm. rlm_instance st = Some rlm \<longrightarrow>
            call_rlm eng st prompt =
              completion eng rlm (pdf_context st) (STRICT_QUERY_PREFIX @ prompt))"
  using assms fallback_answer_nonempty
  by (simp add: chat_input_def Let_def call_rlm_def completion_args_def
           split: sum.splits option.splits)

theorem chat_input_appends_turn_witness:
  "snd (chat_input (fixed_engine (Inr ()) (Inr None)) (Some (lit ''What is X?''))
     \<lparr>messages = [], rlm_instance = Some (), pdf_context = Some (lit ''corpus''),
      context_loaded = True\<rparr>)
   = \<lparr>messages = [\<lparr>role = User, content = lit ''What is X?''\<rparr>,
                  \<lparr>role = Assistant, content = fallback_answer\<rparr>],
      rlm_instance = Some (), pdf_context = Some (lit ''corpus''), context_loaded = True\<rparr>"
proof -
  let ?st = "\<lparr>messages = [], rlm_instance = Some (), pdf_context = Some (lit ''corpus''),
      context_loaded = True\<rparr>"
  have h1: "context_loaded ?st" by simp
  have h2: "lit ''What is X?'' \<noteq> []" by (simp add: lit_def)
  have r: "call_rlm (fixed_engine (Inr ()) (Inr None)) ?st (lit ''What is X?'') = Inr None"
    by (simp add: call_rlm_def completion_args_def fixed_engine_def)
  from chat_input_appends_turn [OF h1 h2, of "fixed_engine (Inr ()) (Inr None)"] r
  show ?thesis by simp
qed

text \<open>
  C2 as stated fails when the engine returns the empty string: the assistant message then
  has empty content, not the fallback.
\<close>

theorem chat_input_empty_answer_kept:
  "chat_input (fixed_engine (Inr ()) (Inr (Some []))) (Some (lit ''What is X?''))
     \<lparr>messages = [], rlm_instance = Some (), pdf_context = Some (lit ''corpus''),
      context_loaded = True\<rparr>
   = (Answered [],
      \<lparr>messages = [\<lparr>role = User, content = lit ''What is X?''\<rparr>, \<lparr>role = Assistant, content = []\<rparr>],
       rlm_instance = Some (), pdf_context = Some (lit ''corpus''), context_loaded = True\<rparr>)
   \<and> fallback_answer \<noteq> []"
  by (simp add: chat_input_def call_rlm_def completion_args_def fixed_engine_def Let_def
        lit_def fallback_answer_def)

text \<open>
  C4. In any run from the initial session in which no load has succeeded, a submitted
  chat line leaves the session as it is (history still empty), and a non-empty one is
  answered with the "load PDFs first" error. Every load that succeeds, from any session,
  leaves an empty history.
\<close>

theorem ask_rejected_before_load:
  "(list_all (\<lambda>fb. \<not> is_Loaded fb) (fst (run js initial_session)) \<longrightarrow>
      snd (chat_input eng submitted (snd (run js initial_session))) = snd (run js initial_session)
      \<and> messages (snd (run js initial_session)) = []
      \<and> (truthy submitted \<longrightarrow>
           fst (chat_input eng submitted (snd (run js initial_session))) =
             Error (lit ''Please load PDFs first using the sidebar.'')))
   \<and> (is_Loaded (fst (load_click eng2 env w files st)) \<longrightarrow>
        messages (snd (load_click eng2 env w files st)) = [])"
proof -
  have a: "snd (chat_input eng submitted (snd (run js initial_session))) = snd (run js initial_session)
      \<and> messages (snd (run js initial_session)) = []
      \<and> (truthy submitted \<longrightarrow>
           fst (chat_input eng submitted (snd (run js initial_session))) =
             Error (lit ''Please load PDFs first using the sidebar.''))"
    if h: "list_all (\<lambda>fb. \<not> is_Loaded fb) (fst (run js initial_session))"
  proof -
    have "\<not> context_loaded (initial_session :: 'a session_state)"
      by (simp add: initial_session_def)
    from run_not_Loaded [OF h this]
    have m: "messages (snd (run js (initial_session :: 'a session_state))) = []"
      and n: "\<not> context_loaded (snd (run js (initial_session :: 'a session_state)))"
      by (simp_all add: initial_session_def)
    from n have "snd (chat_input eng submitted (snd (run js initial_session))) = snd (run js initial_session)"
      by (rule chat_input_not_loaded)
    moreover from n have "truthy submitted \<longrightarrow>
           fst (chat_input eng submitted (snd (run js initial_session))) =
             Error (lit ''Please load PDFs first using the sidebar.'')"
      by (cases submitted) (simp_all add: chat_input_def)
    ultimately show ?thesis using m by simp
  qed
  have b: "messages (snd (load_click eng2 env w files st)) = []"
    if "is_Loaded (fst (load_click eng2 env w files st))"
    using that load_button_Loaded [of eng2 "backend_display w" "sidebar env w" files st]
    by (simp add: load_click_def)
  from a b show ?thesis by blast
qed

theorem ask_rejected_before_load_witness:
  "messages (snd (run
      [Load (fixed_engine (Inl (lit ''connection refused'')) (Inr None))
         \<lparr>DEFAULT_OPENAI_KEY = [], DEFAULT_GEMINI_KEY = []\<rparr>
         \<lparr>backend_display = OpenAI, model_selected = lit ''gpt-x'',
          key_typed = Some (lit ''sk-...''), override_typed = None, url_typed = None,
          model_typed = None\<rparr>
         [\<lparr>name = lit ''a.pdf'', pdf = OpenFails (lit ''broken'')\<rparr>],
       Ask (fixed_engine (Inr ()) (Inr (Some (lit ''hello'')))) (Some (lit ''What is X?''))]
      initial_session)) = []
   \<and> messages (snd (load_click (fixed_engine (Inr ()) (Inr None))
         \<lparr>DEFAULT_OPENAI_KEY = [], DEFAULT_GEMINI_KEY = []\<rparr>
         \<lparr>backend_display = OpenAI, model_selected = lit ''gpt-x'',
          key_typed = Some (lit ''sk-...''), override_typed = None, url_typed = None,
          model_typed = None\<rparr>
         [\<lparr>name = lit ''a.pdf'', pdf = OpenFails (lit ''broken'')\<rparr>]
         \<lparr>messages = [\<lparr>role = User, content = lit ''Q''\<rparr>, \<lparr>role = Assistant, content = lit ''A''\<rparr>],
          rlm_instance = Some (), pdf_context = Some (lit ''old corpus''),
          context_loaded = True\<rparr>)) = []"
proof -
  let ?env = "\<lparr>DEFAULT_OPENAI_KEY = [], DEFAULT_GEMINI_KEY = []\<rparr>"
  let ?w = "\<lparr>backend_display = OpenAI, model_selected = lit ''gpt-x'',
          key_typed = Some (lit ''sk-...''), override_typed = None, url_typed = None,
          model_typed = None\<rparr>"
  let ?files = "[\<lparr>name = lit ''a.pdf'', pdf = OpenFails (lit ''broken'')\<rparr>]"
  let ?bad = "fixed_engine (Inl (lit ''connection refused'')) (Inr None)"
  let ?good = "fixed_engine (Inr ()) (Inr None)"
  let ?ask = "fixed_engine (Inr ()) (Inr (Some (lit ''hello'')))"
  let ?js = "[Load ?bad ?env ?w ?files, Ask ?ask (Some (lit ''What is X?''))]"
  let ?st = "\<lparr>messages = [\<lparr>role = User, content = lit ''Q''\<rparr>, \<lparr>role = Assistant, content = lit ''A''\<rparr>],
          rlm_instance = Some (), pdf_context = Some (lit ''old corpus''),
          context_loaded = True\<rparr>"
  have k: "truthy (api_key (sidebar ?env ?w))"
    by (simp add: sidebar_def hosted_key_def text_input_def lit_def)
  have l1: "fst (load_click ?bad ?env ?w ?files initial_session) =
      Error (lit ''Failed to initialize RLM: '' @ lit ''connection refused'')"
    using k by (simp add: load_click_def load_button_def Let_def get_rlm_def fixed_engine_def)
  have h1: "list_all (\<lambda>fb. \<not> is_Loaded fb) (fst (run ?js initial_session))"
    unfolding run_two using l1 chat_input_never_Loaded by simp
  have h2: "is_Loaded (fst (load_click ?good ?env ?w ?files ?st))"
    using k by (simp add: load_click_def load_button_def Let_def get_rlm_def fixed_engine_def)
  from ask_rejected_before_load [of ?js ?ask "Some (lit ''What is X?'')" ?good ?env ?w ?files ?st] h1 h2
  show ?thesis by blast
qed

text \<open>
  C7. The instruction given to the engine is the fixed prefix followed by the question:
  it starts with the prefix and ends with the question. It does not depend on the stored
  corpus, which is passed as the other argument of the same call.
\<close>

theorem prompt_and_context_separate:
  "completion_args st q = (pdf_context st, STRICT_QUERY_PREFIX @ q)
   \<and> prefix STRICT_QUERY_PREFIX (snd (completion_args st q))
   \<and> suffix q (snd (completion_args st q))
   \<and> snd (completion_args (st\<lparr>pdf_context := c\<rparr>) q) = snd (completion_args st q)
   \<and> call_rlm eng (st\<lparr>rlm_instance := Some rlm\<rparr>) q =
       completion eng rlm (pdf_context st) (STRICT_QUERY_PREFIX @ q)"
  by (simp add: completion_args_def call_rlm_def suffix_def)

text \<open>
  C8, amended. For the Ollama backend neither handler checks the endpoint, so a missing
  endpoint alone never stops a load: the outcome is that of \<open>get_rlm\<close>, which hands the
  endpoint to the engine as it was given. The fixed default endpoint is the initial value
  of the sidebar field, used while the field is unedited; what the user types (the empty
  string too) replaces it. The fallback inside \<open>get_rlm\<close> is for the API key.
\<close>

theorem ollama_endpoint_passed_as_given:
  "base_url (sidebar env (w\<lparr>backend_display := Ollama, url_typed := None\<rparr>)) =
     Some (lit ''http://localhost:11434/v1'')
   \<and> base_url (sidebar env (w\<lparr>backend_display := Ollama, url_typed := Some u\<rparr>)) = Some u
   \<and> fst (load_button eng Ollama p (file # files) st) =
       (case get_rlm eng (backend p) (model_name p) (api_key p) (base_url p) of
          Inr rlm \<Rightarrow>
            Loaded (length (file # files))
              (length (extract_text_from_pdfs (unicode_nfkc eng) (file # files)))
        | Inl e \<Rightarrow> Error (lit ''Failed to initialize RLM: '' @ e))
   \<and> get_rlm eng (lit ''vllm'') m k url =
       (case makedirs eng of
          Some e \<Rightarrow> Inl e
        | None \<Rightarrow>
            RLM eng (lit ''vllm'')
              [lit ''model_name'' \<mapsto> Some m,
               lit ''base_url'' \<mapsto> url,
               lit ''api_key'' \<mapsto> (if truthy k then k else Some (lit ''ollama''))])"
  by (simp add: sidebar_def text_input_def load_button_def get_rlm_def backend_kwargs_of_def
        Let_def split: sum.splits option.splits)

text \<open>
  C8 as stated fails: \<open>get_rlm\<close> called without an endpoint binds \<open>base_url\<close> to \<open>None\<close>,
  and an endpoint field cleared by the user gives the empty string, in the sidebar and in
  the arguments of the engine.
\<close>

theorem ollama_endpoint_no_fallback:
  "backend_kwargs_of (lit ''vllm'') (lit ''llama3'') (Some (lit ''ollama'')) None (lit ''base_url'')
     = Some None
   \<and> base_url (sidebar \<lparr>DEFAULT_OPENAI_KEY = [], DEFAULT_GEMINI_KEY = []\<rparr>
        \<lparr>backend_display = Ollama, model_selected = [], key_typed = None,
         override_typed = None, url_typed = Some [], model_typed = None\<rparr>) = Some []
   \<and> backend_kwargs_of (lit ''vllm'') (lit ''llama3'') (Some (lit ''ollama'')) (Some [])
        (lit ''base_url'') = Some (Some [])"
  by (simp add: backend_kwargs_of_def sidebar_def text_input_def lit_def)

text \<open>
  C9. With the OpenAI backend, no key in the environment and at least one file: when no
  key is entered the load is refused with a message that names OpenAI and the session is
  untouched; when a key is entered and the engine's constructor accepts the arguments
  \<open>model_name\<close> and \<open>api_key\<close>, the load succeeds and the session is ready.
\<close>

theorem openai_key_validation:
  assumes "backend_display w = OpenAI" and "DEFAULT_OPENAI_KEY env = []"
    and "uploaded_files \<noteq> []"
  shows "(text_input [] (key_typed w) = [] \<longrightarrow>
            load_click eng env w uploaded_files st =
              (Error (lit ''Please enter your '' @ lit ''OpenAI'' @ lit '' API Key.''), st))
       \<and> (\<forall>key rlm. key_typed w = Some key \<longrightarrow> key \<noteq> [] \<longrightarrow> makedirs eng = None \<longrightarrow>
            RLM eng (lit ''openai'')
              [lit ''model_name'' \<mapsto> Some (model_selected w), lit ''api_key'' \<mapsto> Some key]
              = Inr rlm \<longrightarrow>
            load_click eng env w uploaded_files st =
              (Loaded (length uploaded_files)
                 (length (extract_text_from_pdfs (unicode_nfkc eng) uploaded_files)),
               st\<lparr>pdf_context := Some (extract_text_from_pdfs (unicode_nfkc eng) uploaded_files),
                  rlm_instance := Some rlm, context_loaded := True, messages := []\<rparr>))"
  using assms
  by (simp add: load_click_def load_button_def sidebar_def hosted_key_def text_input_def
        get_rlm_def backend_kwargs_of_def Let_def lit_def)

theorem openai_key_validation_witness:
  "load_click (fixed_engine (Inr ()) (Inr None))
     \<lparr>DEFAULT_OPENAI_KEY = [], DEFAULT_GEMINI_KEY = []\<rparr>
     \<lparr>backend_display = OpenAI, model_selected = lit ''gpt-x'', key_typed = None,
      override_typed = None, url_typed = None, model_typed = None\<rparr>
     [\<lparr>name = lit ''a.pdf'', pdf = OpenFails (lit ''broken'')\<rparr>]
     initial_session
   = (Error (lit ''Please enter your OpenAI API Key.''), initial_session)
   \<and> load_click (fixed_engine (Inr ()) (Inr None))
     \<lparr>DEFAULT_OPENAI_KEY = [], DEFAULT_GEMINI_KEY = []\<rparr>
     \<lparr>backend_display = OpenAI, model_selected = lit ''gpt-x'', key_typed = Some (lit ''sk-...''),
      override_typed = None, url_typed = None, model_typed = None\<rparr>
     [\<lparr>name = lit ''a.pdf'', pdf = OpenFails (lit ''broken'')\<rparr>]
     initial_session
   = (Loaded 1 (length (error_marker (lit ''a.pdf'') (lit ''broken''))),
      \<lparr>messages = [], rlm_instance = Some (),
       pdf_context = Some (error_marker (lit ''a.pdf'') (lit ''broken'')),
       context_loaded = True\<rparr>)"
proof -
  let ?eng = "fixed_engine (Inr ()) (Inr None)"
  let ?env = "\<lparr>DEFAULT_OPENAI_KEY = [], DEFAULT_GEMINI_KEY = []\<rparr>"
  let ?w0 = "\<lparr>backend_display = OpenAI, model_selected = lit ''gpt-x'', key_typed = None,
      override_typed = None, url_typed = None, model_typed = None\<rparr>"
  let ?w1 = "\<lparr>backend_display = OpenAI, model_selected = lit ''gpt-x'', key_typed = Some (lit ''sk-...''),
      override_typed = None, url_typed = None, model_typed = None\<rparr>"
  let ?files = "[\<lparr>name = lit ''a.pdf'', pdf = OpenFails (lit ''broken'')\<rparr>]"
  have corpus: "extract_text_from_pdfs (unicode_nfkc ?eng) ?files
      = error_marker (lit ''a.pdf'') (lit ''broken'')"
    by (simp add: extract_text_from_pdfs_def file_fragment_def try_file_def)
  have a: "load_click ?eng ?env ?w0 ?files initial_session
      = (Error (lit ''Please enter your OpenAI API Key.''), initial_session)"
    using openai_key_validation [of ?w0 ?env ?files ?eng initial_session]
    by (simp add: text_input_def lit_def)
  have "load_click ?eng ?env ?w1 ?files initial_session
      = (Loaded (length ?files) (length (extract_text_from_pdfs (unicode_nfkc ?eng) ?files)),
         initial_session\<lparr>pdf_context := Some (extract_text_from_pdfs (unicode_nfkc ?eng) ?files),
           rlm_instance := Some (), context_loaded := True, messages := []\<rparr>)"
    using openai_key_validation [of ?w1 ?env ?files ?eng initial_session]
    by (simp add: fixed_engine_def lit_def)
  hence b: "load_click ?eng ?env ?w1 ?files initial_session
      = (Loaded 1 (length (error_marker (lit ''a.pdf'') (lit ''broken''))),
      \<lparr>messages = [], rlm_instance = Some (),
       pdf_context = Some (error_marker (lit ''a.pdf'') (lit ''broken'')),
       context_loaded = True\<rparr>)"
    unfolding corpus by (simp add: initial_session_def)
  from a b show ?thesis by simp
qed

end
